theory Spec2Isabelle
  imports Complex_Main
begin

section \<open>Numbers\<close>

text \<open>
  The bot computes with IEEE doubles (Python floats and numpy/pandas float64). The
  embedding keeps the special values that decide control flow (a missing value, the
  result of a division by zero) and computes finite values exactly over the reals:
  rounding error of the binary representation is not modelled, and the model has a
  single zero, which divides like +0.0.
\<close>

datatype npfloat = Fin real | PInf | NInf | NaN

text \<open>numpy float64 division: a zero divisor gives an infinity or NaN, with a warning.\<close>

fun np_div :: "npfloat \<Rightarrow> npfloat \<Rightarrow> npfloat" where
  "np_div NaN _ = NaN"
| "np_div _ NaN = NaN"
| "np_div (Fin a) (Fin b) =
     (if b \<noteq> 0 then Fin (a / b)
      else if 0 < a then PInf else if a < 0 then NInf else NaN)"
| "np_div (Fin a) PInf = Fin 0"
| "np_div (Fin a) NInf = Fin 0"
| "np_div PInf (Fin b) = (if 0 \<le> b then PInf else NInf)"
| "np_div NInf (Fin b) = (if 0 \<le> b then NInf else PInf)"
| "np_div PInf PInf = NaN"
| "np_div PInf NInf = NaN"
| "np_div NInf PInf = NaN"
| "np_div NInf NInf = NaN"

fun np_add :: "npfloat \<Rightarrow> npfloat \<Rightarrow> npfloat" where
  "np_add NaN _ = NaN"
| "np_add _ NaN = NaN"
| "np_add (Fin a) (Fin b) = Fin (a + b)"
| "np_add (Fin a) PInf = PInf"
| "np_add (Fin a) NInf = NInf"
| "np_add PInf (Fin b) = PInf"
| "np_add NInf (Fin b) = NInf"
| "np_add PInf PInf = PInf"
| "np_add NInf NInf = NInf"
| "np_add PInf NInf = NaN"
| "np_add NInf PInf = NaN"

fun np_neg :: "npfloat \<Rightarrow> npfloat" where
  "np_neg (Fin a) = Fin (- a)"
| "np_neg PInf = NInf"
| "np_neg NInf = PInf"
| "np_neg NaN = NaN"

definition np_sub :: "npfloat \<Rightarrow> npfloat \<Rightarrow> npfloat" where
  "np_sub a b = np_add a (np_neg b)"

text \<open>IEEE comparison: every comparison with NaN is false.\<close>

fun np_less :: "npfloat \<Rightarrow> npfloat \<Rightarrow> bool" where
  "np_less NaN _ = False"
| "np_less _ NaN = False"
| "np_less (Fin a) (Fin b) = (a < b)"
| "np_less (Fin a) PInf = True"
| "np_less (Fin a) NInf = False"
| "np_less PInf _ = False"
| "np_less NInf (Fin b) = True"
| "np_less NInf PInf = True"
| "np_less NInf NInf = False"

text \<open>Python's \<open>max(a, b)\<close>: \<open>b\<close> replaces \<open>a\<close> only when \<open>b > a\<close>.\<close>

definition py_max :: "npfloat \<Rightarrow> npfloat \<Rightarrow> npfloat" where
  "py_max a b = (if np_less a b then b else a)"

text \<open>Python's \<open>round\<close> rounds half to even.\<close>

definition round_half_even :: "real \<Rightarrow> int" where
  "round_half_even y =
     (let f = \<lfloor>y\<rfloor>; d = y - of_int f
      in if d < 1 / 2 then f
         else if 1 / 2 < d then f + 1
         else if even f then f else f + 1)"

fun py_round :: "npfloat \<Rightarrow> nat \<Rightarrow> npfloat" where
  "py_round (Fin x) ndigits = Fin (of_int (round_half_even (x * 10 ^ ndigits)) / 10 ^ ndigits)"
| "py_round PInf ndigits = PInf"
| "py_round NInf ndigits = NInf"
| "py_round NaN ndigits = NaN"

section \<open>Configuration\<close>

definition ATR_MULTIPLIER_SL :: real where "ATR_MULTIPLIER_SL = 3 / 2"
definition ATR_MULTIPLIER_TP :: real where "ATR_MULTIPLIER_TP = 2"
definition RSI_BUY_MIN :: real where "RSI_BUY_MIN = 50"
definition RSI_BUY_MAX :: real where "RSI_BUY_MAX = 70"
definition RSI_SELL_MAX :: real where "RSI_SELL_MAX = 50"
definition RSI_SELL_MIN :: real where "RSI_SELL_MIN = 30"
definition RISK_PERCENT :: real where "RISK_PERCENT = 1"
definition BREAK_EVEN_ATR_MULT :: real where "BREAK_EVEN_ATR_MULT = 1"
definition TRAILING_ATR_MULT :: real where "TRAILING_ATR_MULT = 1"

section \<open>Broker data\<close>

record account_info =
  balance :: real

record symbol_info =
  trade_tick_value :: real
  trade_tick_size :: real
  volume_min :: real
  point :: real

section \<open>Position sizing\<close>

text \<open>
  \<open>calculate_lot_size(atr)\<close>. The two broker look-ups \<open>mt5.account_info()\<close> and
  \<open>mt5.symbol_info(SYMBOL)\<close> are parameters; \<open>None\<close> is the look-up that failed.
\<close>

definition calculate_lot_size ::
    "real \<Rightarrow> account_info option \<Rightarrow> symbol_info option \<Rightarrow> npfloat" where
  "calculate_lot_size atr acc_info sym_info =
     (case acc_info of
        None \<Rightarrow> Fin (1 / 100)
      | Some a \<Rightarrow>
         (case sym_info of
            None \<Rightarrow> Fin (1 / 100)
          | Some s \<Rightarrow>
             (let risk_amount = balance a * (RISK_PERCENT / 100);
                  sl_distance = atr * ATR_MULTIPLIER_SL;
                  tick_value = trade_tick_value s;
                  tick_size = trade_tick_size s
              in if tick_value = 0 \<or> tick_size = 0 then Fin (1 / 100)
                 else
                   (let lot = np_div (Fin risk_amount) (Fin (sl_distance / tick_size * tick_value))
                    in py_round (py_max lot (Fin (volume_min s))) 2))))"

section \<open>Market data and indicators\<close>

record candle =
  time :: int
  open_price :: real
  high :: real
  low :: real
  close :: real

text \<open>
  One row of the data frame that \<open>get_market_data\<close> returns: the indicator columns
  the bot reads afterwards. A pandas value that may be missing is an \<open>option\<close>
  (\<open>None\<close> is the missing value, NaN); the quotient behind the RSI is a float with its
  special values.
\<close>

record row =
  ema_fast :: real
  ema_slow :: real
  rsi :: npfloat
  tr :: "real option"
  atr :: "real option"

text \<open>\<open>Series.ewm(alpha, adjust=False).mean()\<close>: seeded with the first value.\<close>

fun ewm_from :: "real \<Rightarrow> real \<Rightarrow> real list \<Rightarrow> real list" where
  "ewm_from \<alpha> y [] = []"
| "ewm_from \<alpha> y (x # xs) = ((1 - \<alpha>) * y + \<alpha> * x) # ewm_from \<alpha> ((1 - \<alpha>) * y + \<alpha> * x) xs"

fun ewm_mean :: "real \<Rightarrow> real list \<Rightarrow> real list" where
  "ewm_mean \<alpha> [] = []"
| "ewm_mean \<alpha> (x # xs) = x # ewm_from \<alpha> x xs"

text \<open>\<open>min_periods=m\<close>: a value is missing until \<open>m\<close> observations exist.\<close>

definition min_periods :: "nat \<Rightarrow> real list \<Rightarrow> real option list" where
  "min_periods m ys = map (\<lambda>i. if i + 1 < m then None else Some (ys ! i)) [0..<length ys]"

text \<open>\<open>Series.diff()\<close> and \<open>Series.shift(1)\<close>: the first entry is missing.\<close>

definition diff :: "real list \<Rightarrow> real option list" where
  "diff xs = map (\<lambda>i. if i = 0 then None else Some (xs ! i - xs ! (i - 1))) [0..<length xs]"

definition shift1 :: "real list \<Rightarrow> real option list" where
  "shift1 xs = map (\<lambda>i. if i = 0 then None else Some (xs ! (i - 1))) [0..<length xs]"

text \<open>
  \<open>change.where(cond, 0.0)\<close>: the entry where the condition holds, else 0.0; a
  comparison with a missing value is false.
\<close>

definition where_or_zero :: "(real \<Rightarrow> bool) \<Rightarrow> real option \<Rightarrow> real" where
  "where_or_zero cond c = (case c of None \<Rightarrow> 0 | Some d \<Rightarrow> if cond d then d else 0)"

text \<open>\<open>DataFrame.max(axis=1)\<close>: the largest value of a row, missing values skipped.\<close>

fun max_skipna :: "real option list \<Rightarrow> real option" where
  "max_skipna [] = None"
| "max_skipna (None # xs) = max_skipna xs"
| "max_skipna (Some x # xs) =
     (case max_skipna xs of None \<Rightarrow> Some x | Some m \<Rightarrow> Some (max x m))"

text \<open>
  \<open>Series.rolling(n).mean()\<close>: the mean of the last \<open>n\<close> values, missing until
  \<open>n\<close> values exist or when one of them is missing.
\<close>

definition rolling_mean :: "nat \<Rightarrow> real option list \<Rightarrow> real option list" where
  "rolling_mean n xs =
     map (\<lambda>i. if i + 1 < n then None
              else (case those (take n (drop (i + 1 - n) xs)) of
                      None \<Rightarrow> None
                    | Some w \<Rightarrow> Some (sum_list w / real n)))
         [0..<length xs]"

definition np_of :: "real option \<Rightarrow> npfloat" where
  "np_of v = (case v of None \<Rightarrow> NaN | Some x \<Rightarrow> Fin x)"

definition ema_column :: "nat \<Rightarrow> real list \<Rightarrow> real list" where
  "ema_column n cl = ewm_mean (2 / (real n + 1)) cl"

definition gain_column :: "real list \<Rightarrow> real list" where
  "gain_column cl = map (where_or_zero (\<lambda>d. 0 < d)) (diff cl)"

definition loss_column :: "real list \<Rightarrow> real list" where
  "loss_column cl = map (\<lambda>c. - where_or_zero (\<lambda>d. d < 0) c) (diff cl)"

definition avg_gain_column :: "real list \<Rightarrow> real option list" where
  "avg_gain_column cl = min_periods 14 (ewm_mean (1 / 14) (gain_column cl))"

definition avg_loss_column :: "real list \<Rightarrow> real option list" where
  "avg_loss_column cl = min_periods 14 (ewm_mean (1 / 14) (loss_column cl))"

definition rsi_of :: "real option \<Rightarrow> real option \<Rightarrow> npfloat" where
  "rsi_of avg_gain avg_loss =
     (let rs = np_div (np_of avg_gain) (np_of avg_loss)
      in np_sub (Fin 100) (np_div (Fin 100) (np_add (Fin 1) rs)))"

definition rsi_column :: "real list \<Rightarrow> npfloat list" where
  "rsi_column cl = map2 rsi_of (avg_gain_column cl) (avg_loss_column cl)"

definition tr_column :: "candle list \<Rightarrow> real option list" where
  "tr_column df =
     map2 (\<lambda>c pc. max_skipna
                    [Some (high c - low c),
                     map_option (\<lambda>p. \<bar>high c - p\<bar>) pc,
                     map_option (\<lambda>p. \<bar>low c - p\<bar>) pc])
          df (shift1 (map close df))"

definition atr_column :: "candle list \<Rightarrow> real option list" where
  "atr_column df = rolling_mean 14 (tr_column df)"

definition indicators :: "candle list \<Rightarrow> row list" where
  "indicators df =
     (let cl = map close df;
          ef = ema_column 20 cl;
          es = ema_column 50 cl;
          rs = rsi_column cl;
          trs = tr_column df;
          atrs = atr_column df
      in map (\<lambda>i. \<lparr>ema_fast = ef ! i, ema_slow = es ! i, rsi = rs ! i,
                    tr = trs ! i, atr = atrs ! i\<rparr>)
             [0..<length df])"

text \<open>
  \<open>get_market_data(symbol, timeframe, count)\<close>; \<open>rates\<close> is what
  \<open>mt5.copy_rates_from_pos\<close> returned, \<open>None\<close> when it failed.
\<close>

definition get_market_data :: "candle list option \<Rightarrow> nat \<Rightarrow> row list option" where
  "get_market_data rates count =
     (case rates of
        None \<Rightarrow> None
      | Some rs \<Rightarrow> if length rs < count then None else Some (indicators rs))"

section \<open>Signal\<close>

datatype signal = BUY | SELL | NONE

text \<open>The chained comparison \<open>lo < rsi < hi\<close> on a float that may be NaN.\<close>

definition rsi_between :: "real \<Rightarrow> npfloat \<Rightarrow> real \<Rightarrow> bool" where
  "rsi_between lo r hi = (np_less (Fin lo) r \<and> np_less r (Fin hi))"

definition trend_buy :: "row \<Rightarrow> bool" where
  "trend_buy m15_curr = (ema_slow m15_curr < ema_fast m15_curr)"

definition entry_buy :: "row \<Rightarrow> bool" where
  "entry_buy m5_curr = (ema_slow m5_curr < ema_fast m5_curr)"

definition rsi_buy :: "row \<Rightarrow> bool" where
  "rsi_buy m5_curr = rsi_between RSI_BUY_MIN (rsi m5_curr) RSI_BUY_MAX"

definition trend_sell :: "row \<Rightarrow> bool" where
  "trend_sell m15_curr = (ema_fast m15_curr < ema_slow m15_curr)"

definition entry_sell :: "row \<Rightarrow> bool" where
  "entry_sell m5_curr = (ema_fast m5_curr < ema_slow m5_curr)"

definition rsi_sell :: "row \<Rightarrow> bool" where
  "rsi_sell m5_curr = rsi_between RSI_SELL_MIN (rsi m5_curr) RSI_SELL_MAX"

definition buy_conditions :: "row \<Rightarrow> row \<Rightarrow> bool" where
  "buy_conditions m5_curr m15_curr =
     (trend_buy m15_curr \<and> entry_buy m5_curr \<and> rsi_buy m5_curr)"

definition sell_conditions :: "row \<Rightarrow> row \<Rightarrow> bool" where
  "sell_conditions m5_curr m15_curr =
     (trend_sell m15_curr \<and> entry_sell m5_curr \<and> rsi_sell m5_curr)"

text \<open>
  \<open>df.iloc[-2]\<close>, the last completed candle. The frame has at least \<open>count = 100\<close>
  rows whenever \<open>get_market_data\<close> returns one, so the index is in range.
\<close>

definition iloc_m2 :: "'a list \<Rightarrow> 'a" where
  "iloc_m2 df = df ! (length df - 2)"

text \<open>
  \<open>get_signal()\<close>, with the rates of the entry and of the trend timeframe as
  parameters. The second component is the ATR handed on (missing when it is NaN).
\<close>

definition get_signal ::
    "candle list option \<Rightarrow> candle list option \<Rightarrow> signal \<times> real option" where
  "get_signal rates_m5 rates_m15 =
     (case get_market_data rates_m5 100 of
        None \<Rightarrow> (NONE, Some 0)
      | Some df_m5 \<Rightarrow>
         (case get_market_data rates_m15 100 of
            None \<Rightarrow> (NONE, Some 0)
          | Some df_m15 \<Rightarrow>
             (let m5_curr = iloc_m2 df_m5;
                  m15_curr = iloc_m2 df_m15;
                  atr_value = atr m5_curr
              in if buy_conditions m5_curr m15_curr then (BUY, atr_value)
                 else if sell_conditions m5_curr m15_curr then (SELL, atr_value)
                 else (NONE, Some 0))))"

section \<open>Position management\<close>

record tick =
  bid :: real
  ask :: real

datatype order_type = ORDER_TYPE_BUY | ORDER_TYPE_SELL

record position =
  ticket :: int
  price_open :: real
  sl :: real
  tp :: real
  pos_type :: order_type

text \<open>
  A \<open>TRADE_ACTION_SLTP\<close> request handed to \<open>mt5.order_send\<close>: the keys
  \<open>position\<close>, \<open>sl\<close> and \<open>tp\<close> of the dictionary.
\<close>

record request =
  req_position :: int
  req_sl :: real
  req_tp :: real

definition current_price :: "tick \<Rightarrow> position \<Rightarrow> real" where
  "current_price tk pos = (if pos_type pos = ORDER_TYPE_BUY then bid tk else ask tk)"

text \<open>Step 1 of the loop body: break-even.\<close>

definition break_even_step :: "real \<Rightarrow> real \<Rightarrow> tick \<Rightarrow> position \<Rightarrow> request list" where
  "break_even_step pt atr_v tk pos =
     (let profit_distance = \<bar>current_price tk pos - price_open pos\<bar>;
          buffer = pt * 10;
          break_even_trigger = atr_v * BREAK_EVEN_ATR_MULT
      in if break_even_trigger \<le> profit_distance then
           (let new_sl =
                  (if pos_type pos = ORDER_TYPE_BUY then
                     (if sl pos < price_open pos then price_open pos + buffer else sl pos)
                   else
                     (if price_open pos < sl pos then price_open pos - buffer else sl pos))
            in if new_sl \<noteq> sl pos
               then [\<lparr>req_position = ticket pos, req_sl = new_sl, req_tp = tp pos\<rparr>]
               else [])
         else [])"

text \<open>Step 2 of the loop body: trailing stop, from the same snapshot of the position.\<close>

definition trailing_step :: "real \<Rightarrow> tick \<Rightarrow> position \<Rightarrow> request list" where
  "trailing_step atr_v tk pos =
     (let trail_distance = atr_v * TRAILING_ATR_MULT
      in if pos_type pos = ORDER_TYPE_BUY then
           (if price_open pos \<le> sl pos then
              (let new_sl = current_price tk pos - trail_distance
               in if sl pos < new_sl
                  then [\<lparr>req_position = ticket pos, req_sl = new_sl, req_tp = tp pos\<rparr>]
                  else [])
            else [])
         else
           (if sl pos \<le> price_open pos then
              (let new_sl = current_price tk pos + trail_distance
               in if new_sl < sl pos
                  then [\<lparr>req_position = ticket pos, req_sl = new_sl, req_tp = tp pos\<rparr>]
                  else [])
            else []))"

definition manage_position :: "real \<Rightarrow> real \<Rightarrow> tick \<Rightarrow> position \<Rightarrow> request list" where
  "manage_position pt atr_v tk pos = break_even_step pt atr_v tk pos @ trailing_step atr_v tk pos"

text \<open>
  \<open>manage_positions()\<close>: the requests sent, in order. The parameters are what
  \<open>mt5.positions_get\<close> (no positions is the empty list), \<open>mt5.symbol_info\<close>,
  \<open>mt5.symbol_info_tick\<close> and \<open>mt5.copy_rates_from_pos\<close> returned. A missing
  ATR (NaN) passes the test \<open>atr == 0\<close>, and then every comparison of the loop body
  is false: nothing is sent.
\<close>

definition manage_positions ::
    "position list \<Rightarrow> symbol_info option \<Rightarrow> tick option \<Rightarrow> candle list option
       \<Rightarrow> request list" where
  "manage_positions positions sym_info tick_info rates =
     (if positions = [] then []
      else case sym_info of
        None \<Rightarrow> []
      | Some s \<Rightarrow>
         (case tick_info of
            None \<Rightarrow> []
          | Some tk \<Rightarrow>
             (case get_market_data rates 100 of
                None \<Rightarrow> []
              | Some df \<Rightarrow>
                 (case atr (iloc_m2 df) of
                    None \<Rightarrow> []
                  | Some a \<Rightarrow>
                     if a = 0 then []
                     else concat (map (manage_position (point s) a tk) positions)))))"

text \<open>
  The broker's side of a \<open>TRADE_ACTION_SLTP\<close> request: the position the request
  names takes the requested stop-loss and take-profit; every other position is left as
  it is.
\<close>

definition apply_request :: "request \<Rightarrow> position \<Rightarrow> position" where
  "apply_request r p =
     (if req_position r = ticket p then p\<lparr>sl := req_sl r, tp := req_tp r\<rparr> else p)"

definition apply_requests :: "request list \<Rightarrow> position \<Rightarrow> position" where
  "apply_requests rs p = foldl (\<lambda>q r. apply_request r q) p rs"

text \<open>
  One pass of the main loop over the open positions: \<open>manage_positions\<close> on what the
  broker reports, then the positions as the broker holds them afterwards.
\<close>

record market =
  m_symbol_info :: "symbol_info option"
  m_tick :: "tick option"
  m_rates :: "candle list option"

definition cycle :: "position list \<Rightarrow> market \<Rightarrow> position list" where
  "cycle positions m =
     map (apply_requests
            (manage_positions positions (m_symbol_info m) (m_tick m) (m_rates m)))
         positions"

definition run_cycles :: "position list \<Rightarrow> market list \<Rightarrow> position list" where
  "run_cycles positions ms = foldl cycle positions ms"

text \<open>The point size of a symbol is a price increment: it is not negative.\<close>

definition point_ok :: "symbol_info option \<Rightarrow> bool" where
  "point_ok sym_info = (case sym_info of None \<Rightarrow> True | Some s \<Rightarrow> 0 \<le> point s)"

text \<open>
  A position is at break-even when its stop-loss has reached the profit side of its open
  price: the state the two steps of the loop body read from the position itself.
\<close>

definition at_break_even :: "position \<Rightarrow> bool" where
  "at_break_even p =
     (if pos_type p = ORDER_TYPE_BUY then price_open p \<le> sl p else sl p \<le> price_open p)"

text \<open>
  A request tightens a position's stop-loss when the requested stop-loss is strictly
  further in the profit direction: above the current one for a long, below it for a
  short.
\<close>

definition tighter :: "position \<Rightarrow> request \<Rightarrow> bool" where
  "tighter p r = (if pos_type p = ORDER_TYPE_BUY then sl p < req_sl r else req_sl r < sl p)"

text \<open>
  The position \<open>q\<close> is the position \<open>p\<close> at a later time with a stop-loss that has
  not moved against the profit direction.
\<close>

definition not_loosened :: "position \<Rightarrow> position \<Rightarrow> bool" where
  "not_loosened p q =
     (ticket q = ticket p \<and> pos_type q = pos_type p \<and> price_open q = price_open p \<and>
      (if pos_type p = ORDER_TYPE_BUY then sl p \<le> sl q else sl q \<le> sl p))"

section \<open>The specification's True Range\<close>

text \<open>
  True Range as the specification words it: the largest of high - low,
  |high - prevClose| and |low - prevClose|. The first candle has no previous close;
  there the data frame's row maximum skips the two missing distances and leaves
  high - low.
\<close>

definition true_range_spec :: "candle \<Rightarrow> real \<Rightarrow> real" where
  "true_range_spec c prev_close =
     max (high c - low c) (max \<bar>high c - prev_close\<bar> \<bar>low c - prev_close\<bar>)"

definition tr_at :: "candle list \<Rightarrow> nat \<Rightarrow> real" where
  "tr_at df j =
     (if j = 0 then high (df ! 0) - low (df ! 0)
      else true_range_spec (df ! j) (close (df ! (j - 1))))"

section \<open>A steady market\<close>

text \<open>
  A window of 100 equal candles around the price \<open>c\<close> with half-range \<open>w\<close>, for
  running the functions on concrete data.
\<close>

definition steady_rates :: "real \<Rightarrow> real \<Rightarrow> candle list" where
  "steady_rates c w =
     replicate 100 \<lparr>time = 0, open_price = c, high = c + w, low = c - w, close = c\<rparr>"

section \<open>A rising market\<close>

text \<open>Fourteen candles whose close rises by one each time: gains and no loss.\<close>

definition rising_rates :: "candle list" where
  "rising_rates =
     map (\<lambda>n. \<lparr>time = int n, open_price = real n, high = real n, low = real n, close = real n\<rparr>)
       [1..<15]"

section \<open>The data frame's ATR column\<close>

lemma length_shift1: "length (shift1 xs) = length xs"
  by (simp add: shift1_def)

lemma length_tr_column: "length (tr_column df) = length df"
  by (simp add: tr_column_def length_shift1)

lemma length_atr_column: "length (atr_column df) = length df"
  by (simp add: atr_column_def rolling_mean_def length_tr_column)

lemma tr_column_nth:
  assumes "i < length df"
  shows "tr_column df ! i = Some (tr_at df i)"
proof (cases "i = 0")
  case True
  with assms show ?thesis
    by (simp add: tr_column_def shift1_def tr_at_def)
next
  case False
  with assms show ?thesis
    by (simp add: tr_column_def shift1_def tr_at_def true_range_spec_def)
qed

lemma tr_column_eq: "tr_column df = map (\<lambda>j. Some (tr_at df j)) [0..<length df]"
  by (rule nth_equalityI) (simp_all add: length_tr_column tr_column_nth)

lemma those_map_Some: "those (map (\<lambda>j. Some (f j)) js) = Some (map f js)"
  by (induction js) simp_all

lemma window_upt:
  assumes "n \<le> i + 1" "i < m"
  shows "take n (drop (i + 1 - n) [0..<m]) = [i + 1 - n..<i + 1]"
  using assms by (simp add: take_upt)

lemma rolling_window:
  assumes "13 \<le> i" "i < length df"
  shows "those (take 14 (drop (i + 1 - 14) (tr_column df))) = Some (map (tr_at df) [i - 13..<i + 1])"
proof -
  have "take 14 (drop (i + 1 - 14) (tr_column df))
        = map (\<lambda>j. Some (tr_at df j)) (take 14 (drop (i + 1 - 14) [0..<length df]))"
    by (simp add: tr_column_eq take_map drop_map)
  also have "take 14 (drop (i + 1 - 14) [0..<length df]) = [i + 1 - 14..<i + 1]"
    using assms by (intro window_upt) simp_all
  finally have w: "take 14 (drop (i + 1 - 14) (tr_column df))
        = map (\<lambda>j. Some (tr_at df j)) [i + 1 - 14..<i + 1]" .
  have idx: "i + 1 - 14 = i - 13"
    by simp
  show ?thesis
    unfolding idx w [unfolded idx] by (rule those_map_Some)
qed

lemma atr_column_warmup:
  assumes "i < 13" "i < length df"
  shows "atr_column df ! i = None"
  using assms by (simp add: atr_column_def rolling_mean_def length_tr_column)

lemma atr_column_defined:
  assumes "13 \<le> i" "i < length df"
  shows "atr_column df ! i = Some (sum_list (map (tr_at df) [i - 13..<i + 1]) / 14)"
proof -
  have "atr_column df ! i =
        (case those (take 14 (drop (i + 1 - 14) (tr_column df))) of
           None \<Rightarrow> None | Some w \<Rightarrow> Some (sum_list w / real (14::nat)))"
    using assms by (simp add: atr_column_def rolling_mean_def length_tr_column)
  then show ?thesis
    using rolling_window [OF assms] by simp
qed

lemma true_range_spec_nonneg: "0 \<le> true_range_spec c p"
  by (simp add: true_range_spec_def le_max_iff_disj)


lemma length_indicators: "length (indicators df) = length df"
  by (simp add: indicators_def Let_def)

lemma atr_indicators_nth: "i < length df \<Longrightarrow> atr (indicators df ! i) = atr_column df ! i"
  by (simp add: indicators_def Let_def)

lemma rsi_indicators_nth:
  "i < length df \<Longrightarrow> rsi (indicators df ! i) = rsi_column (map close df) ! i"
  by (simp add: indicators_def Let_def)

lemma tr_at_nonneg:
  assumes "j \<noteq> 0 \<or> low (df ! 0) \<le> high (df ! 0)"
  shows "0 \<le> tr_at df j"
  using assms by (auto simp: tr_at_def true_range_spec_nonneg)

lemma tr_at_steady:
  assumes "j < 100" "0 \<le> w"
  shows "tr_at (steady_rates c w) j = 2 * w"
  using assms by (simp add: tr_at_def steady_rates_def true_range_spec_def)

lemma sum_tr_at_steady:
  assumes "hi \<le> 100" "0 \<le> w"
  shows "sum_list (map (tr_at (steady_rates c w)) [lo..<hi]) = real (hi - lo) * (2 * w)"
proof -
  have eq: "map (tr_at (steady_rates c w)) [lo..<hi] = map (\<lambda>j. 2 * w) [lo..<hi]"
    using assms by (intro map_cong) (simp_all add: tr_at_steady)
  show ?thesis
    unfolding eq by (simp add: sum_list_triv)
qed

lemma atr_steady:
  assumes "0 \<le> w"
  shows "atr (iloc_m2 (indicators (steady_rates c w))) = Some (2 * w)"
proof -
  have len: "length (steady_rates c w) = 100"
    by (simp add: steady_rates_def)
  have "atr_column (steady_rates c w) ! 98
      = Some (sum_list (map (tr_at (steady_rates c w)) [98 - 13..<98 + 1]) / 14)"
    by (rule atr_column_defined) (simp_all add: len)
  also have "sum_list (map (tr_at (steady_rates c w)) [98 - 13..<98 + 1]) = real (98 + 1 - (98 - 13)) * (2 * w)"
    using assms by (intro sum_tr_at_steady) simp_all
  finally have "atr_column (steady_rates c w) ! 98 = Some (2 * w)"
    by simp
  then show ?thesis
    by (simp add: iloc_m2_def length_indicators len atr_indicators_nth)
qed

lemma get_market_data_steady:
  "get_market_data (Some (steady_rates c w)) 100 = Some (indicators (steady_rates c w))"
  by (simp add: get_market_data_def steady_rates_def)

lemma manage_positions_steady:
  assumes "positions \<noteq> []" "0 < w"
  shows "manage_positions positions (Some s) (Some tk) (Some (steady_rates c w))
         = concat (map (manage_position (point s) (2 * w) tk) positions)"
  using assms by (simp add: manage_positions_def get_market_data_steady atr_steady)

text \<open>
  Claim C7. The ATR of a row is missing for the first 13 rows; from the 14th row on it
  is exactly the arithmetic mean of the last 14 True Range values, each the largest of
  high - low, |high - prevClose| and |low - prevClose| (high - low for the first candle,
  which has no previous close); and it is never negative, the first candle being a
  candle (its low not above its high).
\<close>

theorem atr_is_mean_of_true_range:
  assumes "i < length df"
  shows "(i < 13 \<longrightarrow> atr (indicators df ! i) = None) \<and>
         (13 \<le> i \<longrightarrow>
            atr (indicators df ! i) = Some (sum_list (map (tr_at df) [i - 13..<i + 1]) / 14)) \<and>
         (low (df ! 0) \<le> high (df ! 0) \<longrightarrow>
            (\<forall>a. atr (indicators df ! i) = Some a \<longrightarrow> 0 \<le> a))"
proof (intro conjI impI allI)
  assume "i < 13"
  then show "atr (indicators df ! i) = None"
    using assms by (simp add: atr_indicators_nth atr_column_warmup)
next
  assume "13 \<le> i"
  then show "atr (indicators df ! i) = Some (sum_list (map (tr_at df) [i - 13..<i + 1]) / 14)"
    using assms by (simp only: atr_indicators_nth atr_column_defined)
next
  fix a
  assume wf: "low (df ! 0) \<le> high (df ! 0)" and a: "atr (indicators df ! i) = Some a"
  have i13: "13 \<le> i"
  proof (rule ccontr)
    assume "\<not> 13 \<le> i"
    then have "atr (indicators df ! i) = None"
      using assms by (simp add: atr_indicators_nth atr_column_warmup)
    with a show False by simp
  qed
  have "a = sum_list (map (tr_at df) [i - 13..<i + 1]) / 14"
    using a i13 assms by (simp only: atr_indicators_nth atr_column_defined option.inject)
  moreover have "0 \<le> sum_list (map (tr_at df) [i - 13..<i + 1])"
    by (rule sum_list_nonneg) (auto simp: tr_at_nonneg wf)
  ultimately show "0 \<le> a"
    by simp
qed

theorem atr_is_mean_of_true_range_witness:
  "98 < length (steady_rates 100 1) \<and>
   low (steady_rates 100 1 ! 0) \<le> high (steady_rates 100 1 ! 0) \<and>
   atr (indicators (steady_rates 100 1) ! 98) = Some 2 \<and>
   0 \<le> (2::real)"
proof -
  have len: "98 < length (steady_rates 100 1)"
    by (simp add: steady_rates_def)
  have wf: "low (steady_rates 100 1 ! 0) \<le> high (steady_rates 100 1 ! 0)"
    by (simp add: steady_rates_def)
  have s: "sum_list (map (tr_at (steady_rates 100 1)) [98 - 13..<98 + 1]) = real (98 + 1 - (98 - 13)) * (2 * 1)"
    by (rule sum_tr_at_steady) simp_all
  have "13 \<le> (98::nat)"
    by simp
  with atr_is_mean_of_true_range [OF len]
  have m: "atr (indicators (steady_rates 100 1) ! 98)
           = Some (sum_list (map (tr_at (steady_rates 100 1)) [98 - 13..<98 + 1]) / 14)"
    by blast
  have v: "atr (indicators (steady_rates 100 1) ! 98) = Some 2"
    unfolding m s by simp
  from atr_is_mean_of_true_range [OF len] wf v have "0 \<le> (2::real)"
    by blast
  with len wf v show ?thesis
    by blast
qed

section \<open>The example and the fallback of position sizing\<close>

text \<open>
  Claim C8. With balance 10000, risk 1 percent, ATR 2.0, stop-loss multiplier 1.5, tick
  value 1, tick size 0.01 and minimum volume 0.01, the risk amount is 100, the stop-loss
  distance 3.0, the raw lot 100 / 300, and \<open>calculate_lot_size\<close> returns 0.33.
\<close>

theorem lot_size_example:
  "10000 * (RISK_PERCENT / 100) = 100 \<and>
   2 * ATR_MULTIPLIER_SL = 3 \<and>
   np_div (Fin 100) (Fin (3 / (1 / 100) * 1)) = Fin (1 / 3) \<and>
   calculate_lot_size 2 (Some \<lparr>balance = 10000\<rparr>)
     (Some \<lparr>trade_tick_value = 1, trade_tick_size = 1 / 100, volume_min = 1 / 100, point = pt\<rparr>)
   = Fin (33 / 100)"
  by (simp add: calculate_lot_size_def RISK_PERCENT_def ATR_MULTIPLIER_SL_def py_max_def
      round_half_even_def Let_def)

text \<open>
  Claim C9. When the account information or the symbol information is unavailable, or
  the tick value or the tick size is zero, \<open>calculate_lot_size\<close> returns the fixed
  lot 0.01: a value, not a failure.
\<close>

theorem lot_size_fallback:
  assumes "acc_info = None \<or> sym_info = None \<or>
           (\<exists>s. sym_info = Some s \<and> (trade_tick_value s = 0 \<or> trade_tick_size s = 0))"
  shows "calculate_lot_size atr_v acc_info sym_info = Fin (1 / 100)"
  using assms
  by (auto simp: calculate_lot_size_def Let_def split: option.splits)

theorem lot_size_fallback_witness:
  "calculate_lot_size 2 (Some \<lparr>balance = 10000\<rparr>)
     (Some \<lparr>trade_tick_value = 0, trade_tick_size = 1 / 100, volume_min = 1 / 2, point = 1 / 100\<rparr>)
   = Fin (1 / 100) \<and>
   calculate_lot_size 2 None
     (Some \<lparr>trade_tick_value = 1, trade_tick_size = 1 / 100, volume_min = 1 / 100, point = 1 / 100\<rparr>)
   = Fin (1 / 100)"
proof -
  have "trade_tick_value \<lparr>trade_tick_value = 0, trade_tick_size = 1 / 100, volume_min = 1 / 2, point = 1 / 100\<rparr> = 0"
    by simp
  then have "calculate_lot_size 2 (Some \<lparr>balance = 10000\<rparr>)
     (Some \<lparr>trade_tick_value = 0, trade_tick_size = 1 / 100, volume_min = 1 / 2, point = 1 / 100\<rparr>)
     = Fin (1 / 100)"
    by (intro lot_size_fallback) blast
  moreover have "calculate_lot_size 2 None
     (Some \<lparr>trade_tick_value = 1, trade_tick_size = 1 / 100, volume_min = 1 / 100, point = 1 / 100\<rparr>)
     = Fin (1 / 100)"
    by (intro lot_size_fallback) blast
  ultimately show ?thesis
    by blast
qed

section \<open>Buy and sell conditions\<close>

lemma np_less_Fin_cases: "np_less (Fin a) r \<Longrightarrow> np_less r (Fin b) \<Longrightarrow> \<exists>x. r = Fin x \<and> a < x \<and> x < b"
  by (cases r) simp_all

lemma rsi_bands_disjoint: "\<not> (rsi_buy m5_curr \<and> rsi_sell m5_curr)"
  by (auto simp: rsi_buy_def rsi_sell_def rsi_between_def RSI_BUY_MIN_def RSI_SELL_MAX_def
      dest!: np_less_Fin_cases)

text \<open>
  Claim C3. For every pair of rows of the entry and of the trend timeframe, the buy
  conditions and the sell conditions of \<open>get_signal\<close> never hold together: the two
  trend comparisons exclude each other, so do the two entry comparisons, and so do the
  two RSI bands.
\<close>

theorem buy_sell_exclusive:
  "\<not> (buy_conditions m5_curr m15_curr \<and> sell_conditions m5_curr m15_curr) \<and>
   \<not> (trend_buy m15_curr \<and> trend_sell m15_curr) \<and>
   \<not> (entry_buy m5_curr \<and> entry_sell m5_curr) \<and>
   \<not> (rsi_buy m5_curr \<and> rsi_sell m5_curr)"
  using rsi_bands_disjoint [of m5_curr]
  by (auto simp: buy_conditions_def sell_conditions_def trend_buy_def trend_sell_def
      entry_buy_def entry_sell_def)

section \<open>Requests of position management\<close>

lemma break_even_step_request:
  assumes "r \<in> set (break_even_step pt a tk p)"
  shows "req_position r = ticket p \<and> req_tp r = tp p \<and> (0 \<le> pt \<longrightarrow> tighter p r)"
  using assms
  by (auto simp: break_even_step_def tighter_def Let_def split: if_splits)

lemma trailing_step_request:
  assumes "r \<in> set (trailing_step a tk p)"
  shows "req_position r = ticket p \<and> req_tp r = tp p \<and> tighter p r"
  using assms
  by (auto simp: trailing_step_def tighter_def Let_def split: if_splits)

lemma manage_position_request:
  assumes "r \<in> set (manage_position pt a tk p)"
  shows "req_position r = ticket p \<and> req_tp r = tp p \<and> (0 \<le> pt \<longrightarrow> tighter p r)"
  using assms break_even_step_request [of r pt a tk p] trailing_step_request [of r a tk p]
  by (auto simp: manage_position_def)

lemma manage_positions_origin:
  assumes "r \<in> set (manage_positions positions sym_info tick_info rates)"
  shows "\<exists>s tk a. sym_info = Some s \<and> tick_info = Some tk \<and> a \<noteq> 0 \<and>
           (\<exists>p\<in>set positions. r \<in> set (manage_position (point s) a tk p))"
  using assms
  by (auto simp: manage_positions_def split: if_splits option.splits)

lemma manage_positions_reached:
  assumes "get_market_data rates 100 = Some df" "atr (iloc_m2 df) = Some a" "a \<noteq> 0"
  shows "manage_positions positions (Some s) (Some tk) rates
         = concat (map (manage_position (point s) a tk) positions)"
  using assms by (simp add: manage_positions_def)

lemma manage_positions_tightens:
  assumes "point_ok sym_info" "r \<in> set (manage_positions positions sym_info tick_info rates)"
  shows "\<exists>p\<in>set positions. req_position r = ticket p \<and> req_tp r = tp p \<and> tighter p r"
proof -
  from manage_positions_origin [OF assms(2)] obtain s tk a p
    where s: "sym_info = Some s" and p: "p \<in> set positions"
      and r: "r \<in> set (manage_position (point s) a tk p)"
    by blast
  from assms(1) s have "0 \<le> point s"
    by (simp add: point_ok_def)
  with manage_position_request [OF r] p show ?thesis
    by blast
qed

lemma not_loosened_refl: "not_loosened p p"
  by (simp add: not_loosened_def)

lemma not_loosened_trans: "not_loosened p q \<Longrightarrow> not_loosened q u \<Longrightarrow> not_loosened p u"
  by (auto simp: not_loosened_def split: if_splits)

lemma apply_requests_not_loosened:
  assumes "\<forall>r\<in>set rs. req_position r = ticket p \<longrightarrow> tighter p r" "not_loosened p q"
  shows "not_loosened p (foldl (\<lambda>q r. apply_request r q) q rs)"
  using assms
proof (induction rs arbitrary: q)
  case Nil
  then show ?case by simp
next
  case (Cons r rs)
  have "not_loosened p (apply_request r q)"
    using Cons.prems by (auto simp: apply_request_def not_loosened_def tighter_def split: if_splits)
  with Cons show ?case by simp
qed

lemma cycle_not_loosened:
  assumes "distinct (map ticket positions)" "point_ok (m_symbol_info m)" "p \<in> set positions"
  shows "not_loosened p
           (apply_requests (manage_positions positions (m_symbol_info m) (m_tick m) (m_rates m)) p)"
  unfolding apply_requests_def
proof (rule apply_requests_not_loosened [OF _ not_loosened_refl], intro ballI impI)
  fix r
  assume r: "r \<in> set (manage_positions positions (m_symbol_info m) (m_tick m) (m_rates m))"
    and t: "req_position r = ticket p"
  from manage_positions_tightens [OF assms(2) r] obtain p'
    where p': "p' \<in> set positions" "req_position r = ticket p'" "tighter p' r"
    by blast
  from assms(1) have "inj_on ticket (set positions)"
    by (simp add: distinct_map)
  with p' t assms(3) have "p' = p"
    by (auto dest: inj_onD)
  with p' show "tighter p r" by simp
qed

lemma length_cycle: "length (cycle positions m) = length positions"
  by (simp add: cycle_def)

lemma tickets_cycle:
  assumes "distinct (map ticket positions)" "point_ok (m_symbol_info m)"
  shows "map ticket (cycle positions m) = map ticket positions"
proof (rule nth_equalityI)
  show "length (map ticket (cycle positions m)) = length (map ticket positions)"
    by (simp add: length_cycle)
next
  fix i
  assume "i < length (map ticket (cycle positions m))"
  then have i: "i < length positions"
    by (simp add: length_cycle)
  then have "not_loosened (positions ! i) (cycle positions m ! i)"
    using cycle_not_loosened [OF assms, of "positions ! i"] by (simp add: cycle_def)
  with i show "map ticket (cycle positions m) ! i = map ticket positions ! i"
    by (simp add: length_cycle not_loosened_def)
qed

lemma run_cycles_not_loosened:
  assumes "distinct (map ticket positions)" "\<forall>m\<in>set ms. point_ok (m_symbol_info m)"
    "i < length positions"
  shows "not_loosened (positions ! i) (run_cycles positions ms ! i)"
  using assms
proof (induction ms arbitrary: positions)
  case Nil
  then show ?case by (simp add: run_cycles_def not_loosened_refl)
next
  case (Cons m ms)
  have ok: "point_ok (m_symbol_info m)"
    using Cons.prems(2) by simp
  have step: "not_loosened (positions ! i) (cycle positions m ! i)"
    using cycle_not_loosened [OF Cons.prems(1) ok, of "positions ! i"] Cons.prems(3)
    by (simp add: cycle_def)
  have "distinct (map ticket (cycle positions m))"
    using Cons.prems(1) ok by (simp only: tickets_cycle)
  moreover have "\<forall>m\<in>set ms. point_ok (m_symbol_info m)"
    using Cons.prems(2) by simp
  moreover have "i < length (cycle positions m)"
    using Cons.prems(3) by (simp add: length_cycle)
  ultimately have "not_loosened (cycle positions m ! i) (run_cycles (cycle positions m) ms ! i)"
    by (rule Cons.IH)
  with step show ?case
    by (auto simp: run_cycles_def intro: not_loosened_trans)
qed

lemmas run_defs = manage_position_def break_even_step_def trailing_step_def
  current_price_def BREAK_EVEN_ATR_MULT_def TRAILING_ATR_MULT_def

text \<open>
  Claim C1. Every stop-loss update request that \<open>manage_positions\<close> emits is for an
  open position and proposes a stop-loss strictly further in the profit direction than
  that position's current stop-loss: strictly greater for a long, strictly smaller for a
  short (the point size of the symbol being non-negative). Over any number of successive
  calls, the broker applying the requests to positions with distinct tickets, the
  stop-loss of a position never loosens.
\<close>

theorem stop_loss_only_tightens:
  "(point_ok sym_info \<longrightarrow>
      (\<forall>r\<in>set (manage_positions positions sym_info tick_info rates).
         \<exists>p\<in>set positions. req_position r = ticket p \<and>
           (if pos_type p = ORDER_TYPE_BUY then sl p < req_sl r else req_sl r < sl p))) \<and>
   (distinct (map ticket positions) \<and> (\<forall>m\<in>set ms. point_ok (m_symbol_info m)) \<and>
    i < length positions \<longrightarrow>
      not_loosened (positions ! i) (run_cycles positions ms ! i))"
  using manage_positions_tightens [of sym_info _ positions tick_info rates]
    run_cycles_not_loosened [of positions ms i]
  unfolding tighter_def by blast

theorem stop_loss_only_tightens_witness:
  "point_ok (Some \<lparr>trade_tick_value = 1, trade_tick_size = 1 / 100, volume_min = 1 / 100, point = 1 / 100\<rparr>) \<and>
   manage_positions
     [\<lparr>ticket = 7, price_open = 100, sl = 97, tp = 110, pos_type = ORDER_TYPE_BUY\<rparr>]
     (Some \<lparr>trade_tick_value = 1, trade_tick_size = 1 / 100, volume_min = 1 / 100, point = 1 / 100\<rparr>)
     (Some \<lparr>bid = 105, ask = 106\<rparr>) (Some (steady_rates 105 1))
   = [\<lparr>req_position = 7, req_sl = 1001 / 10, req_tp = 110\<rparr>] \<and>
   sl (run_cycles
        [\<lparr>ticket = 7, price_open = 100, sl = 97, tp = 110, pos_type = ORDER_TYPE_BUY\<rparr>]
        [\<lparr>m_symbol_info = Some \<lparr>trade_tick_value = 1, trade_tick_size = 1 / 100, volume_min = 1 / 100, point = 1 / 100\<rparr>,
          m_tick = Some \<lparr>bid = 105, ask = 106\<rparr>, m_rates = Some (steady_rates 105 1)\<rparr>,
         \<lparr>m_symbol_info = Some \<lparr>trade_tick_value = 1, trade_tick_size = 1 / 100, volume_min = 1 / 100, point = 1 / 100\<rparr>,
          m_tick = Some \<lparr>bid = 108, ask = 109\<rparr>, m_rates = Some (steady_rates 108 1)\<rparr>] ! 0) = 106 \<and>
   not_loosened
     \<lparr>ticket = 7, price_open = 100, sl = 97, tp = 110, pos_type = ORDER_TYPE_BUY\<rparr>
     (run_cycles
        [\<lparr>ticket = 7, price_open = 100, sl = 97, tp = 110, pos_type = ORDER_TYPE_BUY\<rparr>]
        [\<lparr>m_symbol_info = Some \<lparr>trade_tick_value = 1, trade_tick_size = 1 / 100, volume_min = 1 / 100, point = 1 / 100\<rparr>,
          m_tick = Some \<lparr>bid = 105, ask = 106\<rparr>, m_rates = Some (steady_rates 105 1)\<rparr>,
         \<lparr>m_symbol_info = Some \<lparr>trade_tick_value = 1, trade_tick_size = 1 / 100, volume_min = 1 / 100, point = 1 / 100\<rparr>,
          m_tick = Some \<lparr>bid = 108, ask = 109\<rparr>, m_rates = Some (steady_rates 108 1)\<rparr>] ! 0)"
  (is "?ok \<and> ?first \<and> ?final \<and> not_loosened ?p (run_cycles ?ps ?ms ! 0)")
proof -
  have ok: ?ok
    by (simp add: point_ok_def)
  have first: ?first
    by (simp add: manage_positions_steady run_defs)
  have final: ?final
    by (simp add: run_cycles_def cycle_def apply_requests_def apply_request_def
        manage_positions_steady run_defs)
  have "distinct (map ticket ?ps) \<and> (\<forall>m\<in>set ?ms. point_ok (m_symbol_info m)) \<and> 0 < length ?ps"
    by (simp add: point_ok_def)
  with stop_loss_only_tightens [of _ ?ps _ _ ?ms 0]
  have "not_loosened (?ps ! 0) (run_cycles ?ps ?ms ! 0)"
    by blast
  then have "not_loosened ?p (run_cycles ?ps ?ms ! 0)"
    by simp
  with ok first final show ?thesis
    by blast
qed

text \<open>
  Claim C10. Every request that \<open>manage_positions\<close> emits, from the break-even step or
  from the trailing step, for a long or for a short, carries the ticket of one of the open
  positions and that position's existing take-profit.
\<close>

theorem take_profit_preserved:
  assumes "r \<in> set (manage_positions positions sym_info tick_info rates)"
  shows "\<exists>p\<in>set positions. req_position r = ticket p \<and> req_tp r = tp p"
proof -
  from manage_positions_origin [OF assms] obtain s tk a p
    where "sym_info = Some s" and p: "p \<in> set positions"
      and r: "r \<in> set (manage_position (point s) a tk p)"
    by blast
  from manage_position_request [OF r] p show ?thesis
    by blast
qed

theorem take_profit_preserved_witness:
  "\<lparr>req_position = 8, req_sl = 203, req_tp = 180\<rparr>
     \<in> set (manage_positions
        [\<lparr>ticket = 8, price_open = 210, sl = 208, tp = 180, pos_type = ORDER_TYPE_SELL\<rparr>]
        (Some \<lparr>trade_tick_value = 1, trade_tick_size = 1 / 100, volume_min = 1 / 100, point = 1 / 100\<rparr>)
        (Some \<lparr>bid = 200, ask = 201\<rparr>) (Some (steady_rates 200 1))) \<and>
   (\<exists>p\<in>set [\<lparr>ticket = 8, price_open = 210, sl = 208, tp = 180, pos_type = ORDER_TYPE_SELL\<rparr>].
      req_position \<lparr>req_position = 8, req_sl = 203, req_tp = 180\<rparr> = ticket p \<and>
      req_tp \<lparr>req_position = 8, req_sl = 203, req_tp = 180\<rparr> = tp p)"
  (is "?mem \<and> ?same")
proof -
  have mem: ?mem
    by (simp add: manage_positions_steady run_defs)
  from take_profit_preserved [OF mem] have ?same .
  with mem show ?thesis
    by blast
qed

text \<open>
  Claim C5. The break-even step is idempotent. For a position already at break-even
  (stop-loss at or above the open price for a long, at or below it for a short) the step
  proposes nothing, whatever the price, so the loop body emits only what the trailing
  step emits; and once the broker has applied a break-even request, the step proposes
  nothing more for that position.
\<close>

theorem break_even_idempotent:
  "(at_break_even p \<longrightarrow>
      break_even_step pt a tk p = [] \<and> manage_position pt a tk p = trailing_step a tk p) \<and>
   (r \<in> set (break_even_step pt a tk p) \<longrightarrow>
      break_even_step pt a' tk' (apply_request r p) = [])"
  by (auto simp: at_break_even_def break_even_step_def manage_position_def apply_request_def
      Let_def split: if_splits)

theorem break_even_idempotent_witness:
  "at_break_even \<lparr>ticket = 7, price_open = 100, sl = 1001 / 10, tp = 110, pos_type = ORDER_TYPE_BUY\<rparr> \<and>
   break_even_step (1 / 100) 2 \<lparr>bid = 105, ask = 106\<rparr>
     \<lparr>ticket = 7, price_open = 100, sl = 1001 / 10, tp = 110, pos_type = ORDER_TYPE_BUY\<rparr> = [] \<and>
   \<lparr>req_position = 7, req_sl = 1001 / 10, req_tp = 110\<rparr>
     \<in> set (break_even_step (1 / 100) 2 \<lparr>bid = 105, ask = 106\<rparr>
          \<lparr>ticket = 7, price_open = 100, sl = 97, tp = 110, pos_type = ORDER_TYPE_BUY\<rparr>) \<and>
   break_even_step (1 / 100) 2 \<lparr>bid = 105, ask = 106\<rparr>
     (apply_request \<lparr>req_position = 7, req_sl = 1001 / 10, req_tp = 110\<rparr>
        \<lparr>ticket = 7, price_open = 100, sl = 97, tp = 110, pos_type = ORDER_TYPE_BUY\<rparr>) = []"
  (is "?at \<and> ?none \<and> ?mem \<and> ?again")
proof -
  have at: ?at
    by (simp add: at_break_even_def)
  have mem: ?mem
    by (simp add: run_defs)
  from break_even_idempotent [of "\<lparr>ticket = 7, price_open = 100, sl = 1001 / 10, tp = 110, pos_type = ORDER_TYPE_BUY\<rparr>"
      "1 / 100" 2 "\<lparr>bid = 105, ask = 106\<rparr>"] at
  have none: ?none
    by blast
  from break_even_idempotent [where r = "\<lparr>req_position = 7, req_sl = 1001 / 10, req_tp = 110\<rparr>"
      and p = "\<lparr>ticket = 7, price_open = 100, sl = 97, tp = 110, pos_type = ORDER_TYPE_BUY\<rparr>"
      and pt = "1 / 100" and a = 2 and tk = "\<lparr>bid = 105, ask = 106\<rparr>"
      and a' = 2 and tk' = "\<lparr>bid = 105, ask = 106\<rparr>"] mem
  have again: ?again
    by blast
  from at none mem again show ?thesis
    by blast
qed

text \<open>
  Claim C6, as amended. The break-even trigger compares the absolute distance
  |currentPrice - openPrice| with atr * BREAK_EVEN_ATR_MULT. When the market data give an
  ATR that is not zero and the point size is not negative, then for every long position
  with its stop-loss below its open price \<open>manage_positions\<close> proposes the stop-loss
  openPrice + 10 * point as soon as the absolute distance reaches the trigger, also when
  the current price is below the open price, and then the proposed stop-loss lies above
  the current price; symmetrically for a short position with its stop-loss above its open
  price. (With an ATR of zero \<open>manage_positions\<close> returns before the loop.)
\<close>

theorem break_even_trigger_absolute:
  assumes "p \<in> set positions"
    and "get_market_data rates 100 = Some df" and "atr (iloc_m2 df) = Some a" and "a \<noteq> 0"
    and "0 \<le> point s"
    and "a * BREAK_EVEN_ATR_MULT \<le> \<bar>current_price tk p - price_open p\<bar>"
  shows "(pos_type p = ORDER_TYPE_BUY \<and> sl p < price_open p \<longrightarrow>
            \<lparr>req_position = ticket p, req_sl = price_open p + 10 * point s, req_tp = tp p\<rparr>
              \<in> set (manage_positions positions (Some s) (Some tk) rates) \<and>
            (bid tk < price_open p \<longrightarrow> bid tk < price_open p + 10 * point s)) \<and>
         (pos_type p = ORDER_TYPE_SELL \<and> price_open p < sl p \<longrightarrow>
            \<lparr>req_position = ticket p, req_sl = price_open p - 10 * point s, req_tp = tp p\<rparr>
              \<in> set (manage_positions positions (Some s) (Some tk) rates) \<and>
            (price_open p < ask tk \<longrightarrow> price_open p - 10 * point s < ask tk))"
proof -
  have mp: "manage_positions positions (Some s) (Some tk) rates
            = concat (map (manage_position (point s) a tk) positions)"
    using assms(2-4) by (rule manage_positions_reached)
  have sub: "set (break_even_step (point s) a tk p)
             \<subseteq> set (manage_positions positions (Some s) (Some tk) rates)"
    unfolding mp using assms(1) by (auto simp: manage_position_def)
  have long: "\<lparr>req_position = ticket p, req_sl = price_open p + 10 * point s, req_tp = tp p\<rparr>
              \<in> set (break_even_step (point s) a tk p)"
    if "pos_type p = ORDER_TYPE_BUY" "sl p < price_open p"
    using that assms(5,6) by (simp add: break_even_step_def Let_def)
  have short: "\<lparr>req_position = ticket p, req_sl = price_open p - 10 * point s, req_tp = tp p\<rparr>
              \<in> set (break_even_step (point s) a tk p)"
    if "pos_type p = ORDER_TYPE_SELL" "price_open p < sl p"
    using that assms(5,6) by (simp add: break_even_step_def Let_def)
  from sub long short assms(5) show ?thesis
    by auto
qed

theorem break_even_trigger_absolute_witness:
  "\<lparr>ticket = 7, price_open = 100, sl = 97, tp = 110, pos_type = ORDER_TYPE_BUY\<rparr>
     \<in> set [\<lparr>ticket = 7, price_open = 100, sl = 97, tp = 110, pos_type = ORDER_TYPE_BUY\<rparr>] \<and>
   get_market_data (Some (steady_rates 98 1)) 100 = Some (indicators (steady_rates 98 1)) \<and>
   atr (iloc_m2 (indicators (steady_rates 98 1))) = Some 2 \<and>
   2 * BREAK_EVEN_ATR_MULT
     \<le> \<bar>current_price \<lparr>bid = 975 / 10, ask = 98\<rparr>
          \<lparr>ticket = 7, price_open = 100, sl = 97, tp = 110, pos_type = ORDER_TYPE_BUY\<rparr>
        - 100\<bar> \<and>
   \<lparr>req_position = 7, req_sl = 1001 / 10, req_tp = 110\<rparr>
     \<in> set (manage_positions
          [\<lparr>ticket = 7, price_open = 100, sl = 97, tp = 110, pos_type = ORDER_TYPE_BUY\<rparr>]
          (Some \<lparr>trade_tick_value = 1, trade_tick_size = 1 / 100, volume_min = 1 / 100, point = 1 / 100\<rparr>)
          (Some \<lparr>bid = 975 / 10, ask = 98\<rparr>) (Some (steady_rates 98 1))) \<and>
   (975 / 10 :: real) < 1001 / 10"
  (is "?mem \<and> ?gmd \<and> ?atr \<and> ?trig \<and> ?req \<and> ?above")
proof -
  let ?p = "\<lparr>ticket = 7, price_open = 100, sl = 97, tp = 110, pos_type = ORDER_TYPE_BUY\<rparr>"
  let ?s = "\<lparr>trade_tick_value = 1, trade_tick_size = 1 / 100, volume_min = 1 / 100, point = 1 / 100\<rparr>"
  let ?tk = "\<lparr>bid = 975 / 10, ask = 98\<rparr>"
  have mem: ?mem by simp
  have gmd: ?gmd by (rule get_market_data_steady)
  have a: ?atr using atr_steady [of 1 98] by simp
  have nz: "(2::real) \<noteq> 0" by simp
  have pt: "0 \<le> point ?s" by simp
  have trig: "2 * BREAK_EVEN_ATR_MULT \<le> \<bar>current_price ?tk ?p - price_open ?p\<bar>"
    by (simp add: current_price_def BREAK_EVEN_ATR_MULT_def)
  have pre: "pos_type ?p = ORDER_TYPE_BUY \<and> sl ?p < price_open ?p \<and> bid ?tk < price_open ?p"
    by simp
  from break_even_trigger_absolute [OF mem gmd a nz pt trig] pre
  have "\<lparr>req_position = ticket ?p, req_sl = price_open ?p + 10 * point ?s, req_tp = tp ?p\<rparr>
          \<in> set (manage_positions [?p] (Some ?s) (Some ?tk) (Some (steady_rates 98 1))) \<and>
        bid ?tk < price_open ?p + 10 * point ?s"
    by blast
  then have "?req \<and> ?above"
    by simp
  with mem gmd a trig show ?thesis
    by simp
qed

text \<open>
  The claim C6 as first stated fails where the ATR is zero: the trigger 0 is reached by
  any distance, and nothing is proposed.
\<close>

theorem break_even_trigger_counterexample:
  "pos_type \<lparr>ticket = 7, price_open = 100, sl = 97, tp = 110, pos_type = ORDER_TYPE_BUY\<rparr> = ORDER_TYPE_BUY \<and>
   sl \<lparr>ticket = 7, price_open = 100, sl = 97, tp = 110, pos_type = ORDER_TYPE_BUY\<rparr>
     < price_open \<lparr>ticket = 7, price_open = 100, sl = 97, tp = 110, pos_type = ORDER_TYPE_BUY\<rparr> \<and>
   atr (iloc_m2 (indicators (steady_rates 103 0))) = Some 0 \<and>
   0 * BREAK_EVEN_ATR_MULT
     \<le> \<bar>current_price \<lparr>bid = 103, ask = 104\<rparr>
          \<lparr>ticket = 7, price_open = 100, sl = 97, tp = 110, pos_type = ORDER_TYPE_BUY\<rparr>
        - price_open \<lparr>ticket = 7, price_open = 100, sl = 97, tp = 110, pos_type = ORDER_TYPE_BUY\<rparr>\<bar> \<and>
   manage_positions
     [\<lparr>ticket = 7, price_open = 100, sl = 97, tp = 110, pos_type = ORDER_TYPE_BUY\<rparr>]
     (Some \<lparr>trade_tick_value = 1, trade_tick_size = 1 / 100, volume_min = 1 / 100, point = 1 / 100\<rparr>)
     (Some \<lparr>bid = 103, ask = 104\<rparr>) (Some (steady_rates 103 0)) = []"
proof -
  have a: "atr (iloc_m2 (indicators (steady_rates 103 0))) = Some 0"
    using atr_steady [of 0 103] by simp
  then show ?thesis
    by (simp add: manage_positions_def get_market_data_steady current_price_def)
qed

section \<open>Lot size and the minimum volume\<close>

lemma round_half_even_ge_floor: "\<lfloor>y\<rfloor> \<le> round_half_even y"
  by (simp add: round_half_even_def Let_def)

lemma round_half_even_ge_int:
  assumes "of_int k \<le> y"
  shows "k \<le> round_half_even y"
proof -
  from assms have "k \<le> \<lfloor>y\<rfloor>"
    by (simp add: le_floor_iff)
  with round_half_even_ge_floor [of y] show ?thesis
    by linarith
qed

lemma py_round2_ge:
  assumes "of_int k / 100 \<le> x"
  shows "\<exists>r. py_round (Fin x) 2 = Fin r \<and> of_int k / 100 \<le> r"
proof -
  from assms have "of_int k \<le> x * 10 ^ 2"
    by simp
  then have "k \<le> round_half_even (x * 10 ^ 2)"
    by (rule round_half_even_ge_int)
  then have "(of_int k :: real) \<le> of_int (round_half_even (x * 10 ^ 2))"
    by simp
  then have le: "(of_int k :: real) / 100 \<le> of_int (round_half_even (x * 10 ^ 2)) / 10 ^ 2"
    by (simp add: divide_right_mono)
  have "py_round (Fin x) 2 = Fin (of_int (round_half_even (x * 10 ^ 2)) / 10 ^ 2)"
    by simp
  with le show ?thesis
    by blast
qed

text \<open>
  Outside the amended claim C2: with an ATR of zero the divisor is zero and the lot is not
  a finite number; and the rounding, which comes after the minimum is applied, takes a
  minimum volume that is not a multiple of 0.01 away from itself.
\<close>

lemma lot_size_zero_atr:
  "calculate_lot_size 0 (Some \<lparr>balance = 10000\<rparr>)
     (Some \<lparr>trade_tick_value = 1, trade_tick_size = 1 / 100, volume_min = 1 / 100, point = 1 / 100\<rparr>)
   = PInf"
  by (simp add: calculate_lot_size_def RISK_PERCENT_def py_max_def)

lemma lot_size_rounds_below_minimum:
  "calculate_lot_size 2 (Some \<lparr>balance = 1\<rparr>)
     (Some \<lparr>trade_tick_value = 1, trade_tick_size = 1 / 100, volume_min = 1 / 1000, point = 1 / 100\<rparr>)
   = Fin 0"
  by (simp add: calculate_lot_size_def RISK_PERCENT_def ATR_MULTIPLIER_SL_def py_max_def
      round_half_even_def Let_def)

text \<open>
  Claim C2, as amended. When the account and symbol information are available, the tick
  value, the tick size and the ATR are not zero and the broker's minimum volume is a
  non-negative multiple of 0.01, \<open>calculate_lot_size\<close> returns a finite number that
  is at least the minimum volume and not negative. (In the fallback cases it returns the
  fixed lot 0.01, whatever the minimum volume.)
\<close>

theorem lot_size_at_least_minimum:
  assumes "trade_tick_value s \<noteq> 0" and "trade_tick_size s \<noteq> 0" and "atr_v \<noteq> 0"
    and "volume_min s = of_int k / 100" and "0 \<le> k"
  shows "\<exists>lot. calculate_lot_size atr_v (Some a) (Some s) = Fin lot \<and>
               volume_min s \<le> lot \<and> 0 \<le> lot"
proof -
  define d where "d = atr_v * ATR_MULTIPLIER_SL / trade_tick_size s * trade_tick_value s"
  define x where "x = balance a * (RISK_PERCENT / 100) / d"
  have "d \<noteq> 0"
    using assms(1-3) by (simp add: d_def ATR_MULTIPLIER_SL_def)
  then have lot: "np_div (Fin (balance a * (RISK_PERCENT / 100))) (Fin d) = Fin x"
    by (simp add: x_def)
  have mx: "py_max (Fin x) (Fin (volume_min s)) = Fin (max x (volume_min s))"
    by (simp add: py_max_def max_def)
  have eq: "calculate_lot_size atr_v (Some a) (Some s) = py_round (Fin (max x (volume_min s))) 2"
    using assms(1,2) lot mx by (simp add: calculate_lot_size_def Let_def d_def)
  have "of_int k / 100 \<le> max x (volume_min s)"
    using assms(4) by simp
  from py_round2_ge [OF this] obtain r
    where r: "py_round (Fin (max x (volume_min s))) 2 = Fin r" "of_int k / 100 \<le> r"
    by blast
  have "0 \<le> (of_int k :: real) / 100"
    using assms(5) by simp
  with r eq assms(4) show ?thesis
    by auto
qed

theorem lot_size_at_least_minimum_witness:
  "trade_tick_value \<lparr>trade_tick_value = 1, trade_tick_size = 1 / 100, volume_min = 1 / 100, point = 1 / 100\<rparr> \<noteq> 0 \<and>
   trade_tick_size \<lparr>trade_tick_value = 1, trade_tick_size = 1 / 100, volume_min = 1 / 100, point = 1 / 100\<rparr> \<noteq> 0 \<and>
   (2::real) \<noteq> 0 \<and>
   volume_min \<lparr>trade_tick_value = 1, trade_tick_size = 1 / 100, volume_min = 1 / 100, point = 1 / 100\<rparr>
     = of_int 1 / 100 \<and>
   (\<exists>lot. calculate_lot_size 2 (Some \<lparr>balance = 10000\<rparr>)
            (Some \<lparr>trade_tick_value = 1, trade_tick_size = 1 / 100, volume_min = 1 / 100, point = 1 / 100\<rparr>)
          = Fin lot \<and> 1 / 100 \<le> lot \<and> 0 \<le> lot)"
proof -
  let ?s = "\<lparr>trade_tick_value = 1, trade_tick_size = 1 / 100, volume_min = 1 / 100, point = 1 / 100\<rparr>"
  have tv: "trade_tick_value ?s \<noteq> 0" by simp
  have ts: "trade_tick_size ?s \<noteq> 0" by simp
  have nz: "(2::real) \<noteq> 0" by simp
  have vm: "volume_min ?s = of_int 1 / 100" by simp
  have k: "(0::int) \<le> 1" by simp
  from lot_size_at_least_minimum [OF tv ts nz vm k, of "\<lparr>balance = 10000\<rparr>"]
  have "\<exists>lot. calculate_lot_size 2 (Some \<lparr>balance = 10000\<rparr>) (Some ?s) = Fin lot \<and>
              1 / 100 \<le> lot \<and> 0 \<le> lot"
    by simp
  with tv ts nz vm show ?thesis
    by blast
qed

text \<open>
  The claim C2 as first stated fails on the fallback: with a tick value of zero the result
  is 0.01, below a minimum volume of 0.5.
\<close>

theorem lot_size_below_minimum_counterexample:
  "calculate_lot_size 2 (Some \<lparr>balance = 10000\<rparr>)
     (Some \<lparr>trade_tick_value = 0, trade_tick_size = 1 / 100, volume_min = 1 / 2, point = 1 / 100\<rparr>)
   = Fin (1 / 100) \<and>
   (1 / 100 :: real)
     < volume_min \<lparr>trade_tick_value = 0, trade_tick_size = 1 / 100, volume_min = 1 / 2, point = 1 / 100\<rparr>"
  by (simp add: calculate_lot_size_def)

section \<open>The data frame's RSI column\<close>

lemma length_diff: "length (diff xs) = length xs"
  by (simp add: diff_def)

lemma length_ewm_from: "length (ewm_from \<alpha> y xs) = length xs"
  by (induction xs arbitrary: y) simp_all

lemma length_ewm_mean: "length (ewm_mean \<alpha> xs) = length xs"
  by (cases xs) (simp_all add: length_ewm_from)

lemma ewm_from_nonneg:
  assumes "0 \<le> \<alpha>" "\<alpha> \<le> 1" "0 \<le> y" "\<forall>x\<in>set xs. 0 \<le> x"
  shows "\<forall>v\<in>set (ewm_from \<alpha> y xs). 0 \<le> v"
  using assms(3,4)
proof (induction xs arbitrary: y)
  case Nil
  then show ?case by simp
next
  case (Cons x xs)
  have "0 \<le> (1 - \<alpha>) * y + \<alpha> * x"
    using assms(1,2) Cons.prems by simp
  with Cons show ?case by simp
qed

lemma ewm_mean_nonneg:
  assumes "0 \<le> \<alpha>" "\<alpha> \<le> 1" "\<forall>x\<in>set xs. 0 \<le> x"
  shows "\<forall>v\<in>set (ewm_mean \<alpha> xs). 0 \<le> v"
proof (cases xs)
  case Nil
  then show ?thesis by simp
next
  case (Cons x xs')
  with assms ewm_from_nonneg [of \<alpha> x xs'] show ?thesis
    by simp
qed

lemma gain_column_nonneg: "\<forall>x\<in>set (gain_column cl). 0 \<le> x"
  by (auto simp: gain_column_def where_or_zero_def split: option.splits)

lemma loss_column_nonneg: "\<forall>x\<in>set (loss_column cl). 0 \<le> x"
  by (auto simp: loss_column_def where_or_zero_def split: option.splits)

lemma length_gain_column: "length (gain_column cl) = length cl"
  by (simp add: gain_column_def length_diff)

lemma length_loss_column: "length (loss_column cl) = length cl"
  by (simp add: loss_column_def length_diff)

lemma min_periods_14_nth:
  assumes "i < length ys"
  shows "min_periods 14 ys ! i = (if i < 13 then None else Some (ys ! i))"
  using assms by (simp add: min_periods_def)

lemma avg_gain_column_nth:
  assumes "i < length cl"
  shows "avg_gain_column cl ! i = (if i < 13 then None else Some (ewm_mean (1 / 14) (gain_column cl) ! i))"
  using assms by (simp add: avg_gain_column_def min_periods_14_nth length_ewm_mean length_gain_column)

lemma avg_loss_column_nth:
  assumes "i < length cl"
  shows "avg_loss_column cl ! i = (if i < 13 then None else Some (ewm_mean (1 / 14) (loss_column cl) ! i))"
  using assms by (simp add: avg_loss_column_def min_periods_14_nth length_ewm_mean length_loss_column)

lemma avg_gain_nonneg:
  assumes "i < length cl" "avg_gain_column cl ! i = Some g"
  shows "0 \<le> g"
proof -
  have "ewm_mean (1 / 14) (gain_column cl) ! i \<in> set (ewm_mean (1 / 14) (gain_column cl))"
    using assms(1) by (simp add: length_ewm_mean length_gain_column)
  with ewm_mean_nonneg [of "1 / 14" "gain_column cl"] gain_column_nonneg [of cl]
  have "0 \<le> ewm_mean (1 / 14) (gain_column cl) ! i"
    by simp
  with assms show ?thesis
    by (simp add: avg_gain_column_nth split: if_splits)
qed

lemma avg_loss_nonneg:
  assumes "i < length cl" "avg_loss_column cl ! i = Some l"
  shows "0 \<le> l"
proof -
  have "ewm_mean (1 / 14) (loss_column cl) ! i \<in> set (ewm_mean (1 / 14) (loss_column cl))"
    using assms(1) by (simp add: length_ewm_mean length_loss_column)
  with ewm_mean_nonneg [of "1 / 14" "loss_column cl"] loss_column_nonneg [of cl]
  have "0 \<le> ewm_mean (1 / 14) (loss_column cl) ! i"
    by simp
  with assms show ?thesis
    by (simp add: avg_loss_column_nth split: if_splits)
qed

lemma length_avg_gain_column: "length (avg_gain_column cl) = length cl"
  by (simp add: avg_gain_column_def min_periods_def length_ewm_mean length_gain_column)

lemma length_avg_loss_column: "length (avg_loss_column cl) = length cl"
  by (simp add: avg_loss_column_def min_periods_def length_ewm_mean length_loss_column)

lemma rsi_column_nth:
  assumes "i < length cl"
  shows "rsi_column cl ! i = rsi_of (avg_gain_column cl ! i) (avg_loss_column cl ! i)"
  using assms by (simp add: rsi_column_def length_avg_gain_column length_avg_loss_column)

lemma rsi_of_missing: "rsi_of None l = NaN" "rsi_of g None = NaN"
  by (cases g; simp add: rsi_of_def np_of_def np_sub_def)+

lemma rsi_of_positive_loss:
  assumes "0 \<le> g" "0 < l"
  shows "rsi_of (Some g) (Some l) = Fin (100 - 100 / (1 + g / l))"
    and "0 \<le> 100 - 100 / (1 + g / l)" and "100 - 100 / (1 + g / l) \<le> 100"
proof -
  have pos: "1 \<le> 1 + g / l"
    using assms by simp
  then have nz: "1 + g / l \<noteq> 0"
    by linarith
  have "l \<noteq> 0"
    using assms by simp
  with nz show "rsi_of (Some g) (Some l) = Fin (100 - 100 / (1 + g / l))"
    by (simp add: rsi_of_def np_of_def np_sub_def)
  from pos have "100 / (1 + g / l) \<le> 100 / 1"
    by (intro divide_left_mono) simp_all
  then show "0 \<le> 100 - 100 / (1 + g / l)"
    by simp
  from pos show "100 - 100 / (1 + g / l) \<le> 100"
    by simp
qed

lemma rsi_of_zero_loss:
  "rsi_of (Some g) (Some 0) = (if 0 < g then Fin 100 else if g < 0 then Fin 100 else NaN)"
  by (simp add: rsi_of_def np_of_def np_sub_def)

text \<open>
  The loss column is a negation, so in pandas a loss average of zero is the float -0.0
  and the quotient \<open>rs\<close> is the negative infinity where the model, with its single
  zero, has the positive one. The RSI formula gives 100 for both.
\<close>

lemma rsi_formula_infinite:
  "np_sub (Fin 100) (np_div (Fin 100) (np_add (Fin 1) PInf)) = Fin 100"
  "np_sub (Fin 100) (np_div (Fin 100) (np_add (Fin 1) NInf)) = Fin 100"
  by (simp_all add: np_sub_def)

lemma rsi_column_cases:
  assumes "i < length cl"
  shows "(rsi_column cl ! i \<noteq> NaN \<longrightarrow> (\<exists>r. rsi_column cl ! i = Fin r \<and> 0 \<le> r \<and> r \<le> 100)) \<and>
         (rsi_column cl ! i = NaN) =
           (i < 13 \<or> (avg_gain_column cl ! i = Some 0 \<and> avg_loss_column cl ! i = Some 0)) \<and>
         (avg_loss_column cl ! i = Some 0 \<longrightarrow>
            rsi_column cl ! i = (if avg_gain_column cl ! i = Some 0 then NaN else Fin 100))"
proof (cases "i < 13")
  case True
  with assms show ?thesis
    by (simp add: rsi_column_nth avg_gain_column_nth avg_loss_column_nth rsi_of_missing)
next
  case False
  with assms obtain g l where g: "avg_gain_column cl ! i = Some g"
    and l: "avg_loss_column cl ! i = Some l"
    by (simp add: avg_gain_column_nth avg_loss_column_nth)
  have g0: "0 \<le> g" using assms g by (rule avg_gain_nonneg)
  have l0: "0 \<le> l" using assms l by (rule avg_loss_nonneg)
  have r: "rsi_column cl ! i = rsi_of (Some g) (Some l)"
    using assms g l by (simp add: rsi_column_nth)
  show ?thesis
  proof (cases "l = 0")
    case True
    with r g l g0 False show ?thesis
      by (auto simp: rsi_of_zero_loss)
  next
    case lpos: False
    with l0 have "0 < l" by simp
    from rsi_of_positive_loss [OF g0 this] r g l lpos False show ?thesis
      by auto
  qed
qed

lemma diff_replicate_nth:
  assumes "i < n"
  shows "diff (replicate n c) ! i = (if i = 0 then None else Some 0)"
  using assms by (simp add: diff_def)

lemma gain_column_replicate: "gain_column (replicate n c) = replicate n 0"
  by (rule nth_equalityI)
    (simp_all add: length_gain_column gain_column_def length_diff diff_replicate_nth
      where_or_zero_def)

lemma loss_column_replicate: "loss_column (replicate n c) = replicate n 0"
  by (rule nth_equalityI)
    (simp_all add: length_loss_column loss_column_def length_diff diff_replicate_nth
      where_or_zero_def)

lemma ewm_from_zero: "ewm_from \<alpha> 0 (replicate n 0) = replicate n 0"
  by (induction n) simp_all

lemma ewm_mean_zero: "ewm_mean \<alpha> (replicate n 0) = replicate n 0"
  by (cases n) (simp_all add: ewm_from_zero)

lemma closes_steady: "map close (steady_rates c w) = replicate 100 c"
  by (simp add: steady_rates_def)

lemma averages_steady:
  assumes "13 \<le> i" "i < 100"
  shows "avg_gain_column (map close (steady_rates c w)) ! i = Some 0"
    and "avg_loss_column (map close (steady_rates c w)) ! i = Some 0"
  using assms
  by (simp_all add: closes_steady avg_gain_column_nth avg_loss_column_nth
      gain_column_replicate loss_column_replicate ewm_mean_zero)

text \<open>
  Claim C4, as amended. For every candle sequence and every row of the data frame, an RSI
  that is defined (not NaN) lies within [0, 100]; the RSI is undefined exactly on the
  first 13 rows and where the Wilder averages of gain and of loss are both zero; and
  where the average loss is zero the RSI is exactly 100 unless the average gain is zero
  too, in which case the quotient is 0 / 0 and the RSI is NaN.
\<close>

theorem rsi_within_range:
  assumes "i < length df"
  shows "(rsi (indicators df ! i) \<noteq> NaN \<longrightarrow>
            (\<exists>r. rsi (indicators df ! i) = Fin r \<and> 0 \<le> r \<and> r \<le> 100)) \<and>
         (rsi (indicators df ! i) = NaN) =
            (i < 13 \<or> (avg_gain_column (map close df) ! i = Some 0 \<and>
                       avg_loss_column (map close df) ! i = Some 0)) \<and>
         (avg_loss_column (map close df) ! i = Some 0 \<longrightarrow>
            rsi (indicators df ! i) =
              (if avg_gain_column (map close df) ! i = Some 0 then NaN else Fin 100))"
  using rsi_column_cases [of i "map close df"] assms
  by (simp add: rsi_indicators_nth)

theorem rsi_within_range_witness:
  "13 < length rising_rates \<and>
   avg_loss_column (map close rising_rates) ! 13 = Some 0 \<and>
   avg_gain_column (map close rising_rates) ! 13 \<noteq> Some 0 \<and>
   rsi (indicators rising_rates ! 13) = Fin 100"
proof -
  have len: "13 < length rising_rates"
    by (simp add: rising_rates_def)
  have l: "avg_loss_column (map close rising_rates) ! 13 = Some 0"
    by code_simp
  have g: "avg_gain_column (map close rising_rates) ! 13 \<noteq> Some 0"
    by code_simp
  from rsi_within_range [OF len] l g have "rsi (indicators rising_rates ! 13) = Fin 100"
    by simp
  with len l g show ?thesis
    by blast
qed

text \<open>
  The claim C4 as first stated fails on a flat market: the average loss is zero and the
  RSI is NaN, not 100.
\<close>

theorem rsi_flat_counterexample:
  "98 < length (steady_rates 100 1) \<and>
   avg_loss_column (map close (steady_rates 100 1)) ! 98 = Some 0 \<and>
   rsi (indicators (steady_rates 100 1) ! 98) = NaN \<and>
   rsi (indicators (steady_rates 100 1) ! 98) \<noteq> Fin 100"
proof -
  have len: "98 < length (steady_rates 100 1)"
    by (simp add: steady_rates_def)
  have g: "avg_gain_column (map close (steady_rates 100 1)) ! 98 = Some 0"
    by (rule averages_steady) simp_all
  have l: "avg_loss_column (map close (steady_rates 100 1)) ! 98 = Some 0"
    by (rule averages_steady) simp_all
  have "rsi (indicators (steady_rates 100 1) ! 98) = rsi_of (Some 0) (Some 0)"
    using len g l by (simp add: rsi_indicators_nth rsi_column_nth)
  then have "rsi (indicators (steady_rates 100 1) ! 98) = NaN"
    by (simp add: rsi_of_zero_loss)
  with len l show ?thesis
    by simp
qed

end
